theory Spec2Isabelle
  imports Main
begin

section \<open>JavaScript values\<close>

text \<open>
  The envelopes, tool arguments and tool results of the program are JSON data. A value
  of type \<open>json\<close> is a parsed JSON value; an object is the list of its own properties.
  The numbers that occur in the modelled code (request ids, error codes, HTTP statuses,
  durations in milliseconds) are integers; \<open>JNum n\<close> stands for the number \<open>n\<close> when
  \<open>n\<close> is an integer that a JavaScript number holds exactly (below \<open>2^53\<close> in magnitude),
  and such a number prints as its decimal digits. A JavaScript value that may also be
  \<^verbatim>\<open>undefined\<close> (an absent property, an omitted argument) has type \<open>json option\<close>, with
  \<open>None\<close> for \<^verbatim>\<open>undefined\<close> and \<open>Some JNull\<close> for \<^verbatim>\<open>null\<close>.
\<close>

datatype json =
    JNull
  | JBool bool
  | JNum int
  | JStr string
  | JArr "json list"
  | JObj "(string \<times> json) list"

text \<open>Decimal digits of a non-negative integer, as a template literal prints it.\<close>

definition digit :: "nat \<Rightarrow> char" where
  "digit d = ''0123456789'' ! d"

fun show_nat :: "nat \<Rightarrow> string" where
  "show_nat n = (if n < 10 then [digit n] else show_nat (n div 10) @ [digit (n mod 10)])"

declare show_nat.simps [simp del]

definition show_int :: "int \<Rightarrow> string" where
  "show_int n = (if n < 0 then ''-'' @ show_nat (nat (- n)) else show_nat (nat n))"

text \<open>Reading the digits back; used to show that \<open>show_nat\<close> is injective.\<close>

definition digit_val :: "char \<Rightarrow> nat" where
  "digit_val c = of_char c - 48"

definition read_nat :: "string \<Rightarrow> nat" where
  "read_nat s = foldl (\<lambda>a c. 10 * a + digit_val c) 0 s"

text \<open>
  Property read \<^verbatim>\<open>v.k\<close> on a value \<open>v\<close> that is neither \<^verbatim>\<open>null\<close> nor \<^verbatim>\<open>undefined\<close>, for the
  property names the program reads (\<^verbatim>\<open>id\<close>, \<^verbatim>\<open>params\<close>, \<^verbatim>\<open>name\<close>, \<^verbatim>\<open>arguments\<close>, \<^verbatim>\<open>clientInfo\<close>,
  \<^verbatim>\<open>result\<close>, \<^verbatim>\<open>error\<close>, \<^verbatim>\<open>code\<close>, \<^verbatim>\<open>message\<close>, \<^verbatim>\<open>tools\<close>, \<^verbatim>\<open>description\<close>): an object yields
  its own property, any other value \<^verbatim>\<open>undefined\<close>.
\<close>

fun property :: "json \<Rightarrow> string \<Rightarrow> json option" where
  "property (JObj kvs) k = map_of kvs k"
| "property _ k = None"

text \<open>Whether \<^verbatim>\<open>v.k\<close> can be read at all: reading a property of \<^verbatim>\<open>null\<close> or \<^verbatim>\<open>undefined\<close> raises.\<close>

fun nullish :: "json option \<Rightarrow> bool" where
  "nullish None = True"
| "nullish (Some JNull) = True"
| "nullish (Some _) = False"

text \<open>Truthiness, as \<^verbatim>\<open>if (v)\<close>, \<^verbatim>\<open>!v\<close> and \<^verbatim>\<open>a || b\<close> test it.\<close>

fun truthy :: "json option \<Rightarrow> bool" where
  "truthy None = False"
| "truthy (Some JNull) = False"
| "truthy (Some (JBool b)) = b"
| "truthy (Some (JNum n)) = (n \<noteq> 0)"
| "truthy (Some (JStr s)) = (s \<noteq> [])"
| "truthy (Some (JArr xs)) = True"
| "truthy (Some (JObj kvs)) = True"

text \<open>
  String conversion, as a template literal \<^verbatim>\<open>`${v}`\<close> performs it: an array prints its
  elements joined by commas, a \<^verbatim>\<open>null\<close> element as the empty string.
\<close>

fun js_String :: "json \<Rightarrow> string" and js_join :: "json list \<Rightarrow> string" where
  "js_String JNull = ''null''"
| "js_String (JBool b) = (if b then ''true'' else ''false'')"
| "js_String (JNum n) = show_int n"
| "js_String (JStr s) = s"
| "js_String (JArr xs) = js_join xs"
| "js_String (JObj kvs) = ''[object Object]''"
| "js_join [] = []"
| "js_join [x] = (if x = JNull then [] else js_String x)"
| "js_join (x # y # ys) = (if x = JNull then [] else js_String x) @ '','' @ js_join (y # ys)"

definition template :: "json option \<Rightarrow> string" where
  "template v = (case v of None \<Rightarrow> ''undefined'' | Some j \<Rightarrow> js_String j)"

text \<open>
  What the program throws. \<open>Error m\<close> is \<^verbatim>\<open>new Error(m)\<close>. \<open>TypeError\<close> is the error the
  engine raises on a property read of \<^verbatim>\<open>null\<close> or \<^verbatim>\<open>undefined\<close> or on a call of something
  that is not a function, and the one \<^verbatim>\<open>fetch\<close> rejects with; \<open>SyntaxError\<close> is the one
  \<^verbatim>\<open>response.json()\<close> rejects with. The message texts of the last two belong to the engine.
\<close>

datatype exn = Error string | TypeError | SyntaxError

section \<open>Execution tracker (agent-executor.ts)\<close>

text \<open>
  \<^verbatim>\<open>interface ExecutionStep\<close>. The fields \<^verbatim>\<open>id\<close> and \<^verbatim>\<open>type\<close> are called \<open>step_id\<close> and
  \<open>step_type\<close> here, since several records of the program have an \<^verbatim>\<open>id\<close>.
  An optional field that was never assigned is \<open>None\<close>.
\<close>

datatype step_type =
  step_start | step_tool_call | step_tool_response | step_llm_response | step_end | step_error

record ExecutionStep =
  step_id :: string
  step_type :: step_type
  timestamp :: string
  content :: string
  actor :: string
  target :: string
  duration :: "int option"
  metadata :: "json option"

text \<open>
  \<^verbatim>\<open>class ExecutionTracker\<close>: the array \<^verbatim>\<open>steps\<close> and the number \<^verbatim>\<open>stepCounter\<close>. The counter
  is a natural number: it counts the elements pushed since the last \<^verbatim>\<open>clear\<close>, and a
  JavaScript array holds fewer than \<open>2^32\<close> elements, far inside the range where
  \<^verbatim>\<open>++\<close> on a number is exact.
\<close>

record ExecutionTracker =
  steps :: "ExecutionStep list"
  stepCounter :: nat

definition new_ExecutionTracker :: ExecutionTracker where
  "new_ExecutionTracker = \<lparr>steps = [], stepCounter = 0\<rparr>"

text \<open>
  \<^verbatim>\<open>addStep(type, content, actor, target, metadata?)\<close>. The first argument \<open>now\<close> is what
  \<^verbatim>\<open>new Date().toISOString()\<close> returns during the call. The result is the returned id and
  the tracker after the call.
\<close>

definition addStep ::
  "string \<Rightarrow> step_type \<Rightarrow> string \<Rightarrow> string \<Rightarrow> string \<Rightarrow> json option \<Rightarrow>
   ExecutionTracker \<Rightarrow> string \<times> ExecutionTracker" where
  "addStep now ty cont act tgt md t =
     (let c = stepCounter t + 1;
          i = ''step-'' @ show_nat c;
          step = \<lparr>step_id = i, step_type = ty, timestamp = now, content = cont,
                  actor = act, target = tgt, duration = None, metadata = md\<rparr>
      in (i, \<lparr>steps = steps t @ [step], stepCounter = c\<rparr>))"

text \<open>
  \<^verbatim>\<open>updateStepDuration(id, duration)\<close>: \<^verbatim>\<open>find\<close> returns the first step with that id, or
  \<^verbatim>\<open>undefined\<close>; the assignment writes to that step object, which sits in the array at the
  position of the first match.
\<close>

definition updateStepDuration :: "string \<Rightarrow> int \<Rightarrow> ExecutionTracker \<Rightarrow> ExecutionTracker" where
  "updateStepDuration i d t =
     (case List.find (\<lambda>s. step_id s = i) (steps t) of
        None \<Rightarrow> t
      | Some step \<Rightarrow>
          t\<lparr>steps := (steps t)[length (takeWhile (\<lambda>s. step_id s \<noteq> i) (steps t))
                                  := step\<lparr>duration := Some d\<rparr>]\<rparr>)"

definition getSteps :: "ExecutionTracker \<Rightarrow> ExecutionStep list" where
  "getSteps t = steps t"

definition clear :: "ExecutionTracker \<Rightarrow> ExecutionTracker" where
  "clear t = t\<lparr>steps := [], stepCounter := 0\<rparr>"

text \<open>
  A run of \<^verbatim>\<open>addStep\<close> calls, one per element of the list, in order. A call is given by the
  clock reading during it and its arguments.
\<close>

record step_call =
  call_now :: string
  call_type :: step_type
  call_content :: string
  call_actor :: string
  call_target :: string
  call_metadata :: "json option"

definition record_call :: "step_call \<Rightarrow> ExecutionTracker \<Rightarrow> string \<times> ExecutionTracker" where
  "record_call c t =
     addStep (call_now c) (call_type c) (call_content c) (call_actor c) (call_target c)
       (call_metadata c) t"

fun addSteps :: "step_call list \<Rightarrow> ExecutionTracker \<Rightarrow> string list \<times> ExecutionTracker" where
  "addSteps [] t = ([], t)"
| "addSteps (c # cs) t =
     (let (i, t') = record_call c t; (is, t'') = addSteps cs t' in (i # is, t''))"

text \<open>The step that the \<open>k\<close>-th call of a run records.\<close>

definition step_of_call :: "nat \<Rightarrow> step_call \<Rightarrow> ExecutionStep" where
  "step_of_call k c =
     \<lparr>step_id = ''step-'' @ show_nat k, step_type = call_type c, timestamp = call_now c,
      content = call_content c, actor = call_actor c, target = call_target c,
      duration = None, metadata = call_metadata c\<rparr>"

section \<open>Protocol types (mcp-protocol.ts)\<close>

text \<open>
  \<^verbatim>\<open>interface MCPRequest\<close>. On the server the request is the parsed body seen through the
  cast \<^verbatim>\<open>req.body as MCPRequest\<close>, which checks nothing: a field is the body's property of
  that name, \<open>None\<close> when the body has none.
\<close>

record MCPRequest =
  req_jsonrpc :: string
  req_id :: "json option"
  req_method :: string
  req_params :: "json option"

text \<open>\<^verbatim>\<open>interface MCPResponse\<close> and its \<^verbatim>\<open>error\<close> member.\<close>

record rpc_error =
  code :: int
  message :: string
  data :: "json option"

record MCPResponse =
  resp_jsonrpc :: string
  resp_id :: "json option"
  result :: "json option"
  error :: "rpc_error option"

record MCPTool =
  name :: string
  description :: string
  inputSchema :: json

record features =
  streaming :: "bool option"
  cancellation :: "bool option"
  progress :: "bool option"

record MCPCapabilities =
  cap_tools :: "MCPTool list"
  version :: string
  features :: features

text \<open>
  What \<^verbatim>\<open>JSON.stringify\<close> followed by \<^verbatim>\<open>JSON.parse\<close> makes of these objects on the wire. A
  property whose value is \<^verbatim>\<open>undefined\<close> is left out.
\<close>

definition field :: "string \<Rightarrow> json option \<Rightarrow> (string \<times> json) list" where
  "field k v = (case v of None \<Rightarrow> [] | Some j \<Rightarrow> [(k, j)])"

definition tool_json :: "MCPTool \<Rightarrow> json" where
  "tool_json t =
     JObj [(''name'', JStr (name t)), (''description'', JStr (description t)),
           (''inputSchema'', inputSchema t)]"

definition features_json :: "features \<Rightarrow> json" where
  "features_json f =
     JObj (field ''streaming'' (map_option JBool (streaming f)) @
           field ''cancellation'' (map_option JBool (cancellation f)) @
           field ''progress'' (map_option JBool (progress f)))"

definition capabilities_json :: "MCPCapabilities \<Rightarrow> json" where
  "capabilities_json c =
     JObj [(''tools'', JArr (map tool_json (cap_tools c))), (''version'', JStr (version c)),
           (''features'', features_json (features c))]"

definition error_json :: "rpc_error \<Rightarrow> json" where
  "error_json e =
     JObj ([(''code'', JNum (code e)), (''message'', JStr (message e))] @ field ''data'' (data e))"

definition response_json :: "MCPResponse \<Rightarrow> json" where
  "response_json r =
     JObj ([(''jsonrpc'', JStr (resp_jsonrpc r))] @ field ''id'' (resp_id r) @
           field ''result'' (result r) @ field ''error'' (map_option error_json (error r)))"

definition request_json :: "MCPRequest \<Rightarrow> json" where
  "request_json r =
     JObj ([(''jsonrpc'', JStr (req_jsonrpc r))] @ field ''id'' (req_id r) @
           [(''method'', JStr (req_method r))] @ field ''params'' (req_params r))"

section \<open>Protocol server (mcp-server-protocol.ts)\<close>

text \<open>The three descriptors that \<^verbatim>\<open>registerTools\<close> assigns, as written in the source.\<close>

definition string_property :: "string \<Rightarrow> json" where
  "string_property d = JObj [(''type'', JStr ''string''), (''description'', JStr d)]"

definition add_reminder_tool :: MCPTool where
  \<open>add_reminder_tool =
     \<lparr>name = ''add_reminder'',
      description = ''Adds a new reminder for a specific task at a given time. Use this to add a new reminder.'',
      inputSchema = JObj
        [(''type'', JStr ''object''),
         (''properties'', JObj
            [(''time'', string_property
                ''The time for the reminder, e.g., "10:00 AM", "tonight at 8pm".''),
             (''task'', string_property
                ''The task or message for the reminder, e.g., "call the doctor", "buy groceries".'')]),
         (''required'', JArr [JStr ''time'', JStr ''task''])]\<rparr>\<close>

definition send_email_reminder_tool :: MCPTool where
  \<open>send_email_reminder_tool =
     \<lparr>name = ''send_email_reminder'',
      description = ''Sends an email reminder with calendar invite to a specified email address. Automatically parses time expressions and creates calendar events.'',
      inputSchema = JObj
        [(''type'', JStr ''object''),
         (''properties'', JObj
            [(''time'', string_property
                ''The time for the reminder. Can be natural language like "tomorrow at 2 PM", "next week", "in 3 hours", or specific times like "10:00 AM".''),
             (''task'', string_property
                ''The task or message for the reminder, e.g., "call the doctor", "team meeting", "dentist appointment".''),
             (''email'', JObj
                [(''type'', JStr ''string''), (''format'', JStr ''email''),
                 (''description'', JStr ''The email address to send the reminder to.'')]),
             (''eventDuration'', JObj
                [(''type'', JStr ''number''),
                 (''description'', JStr ''Duration of the event in minutes. If not specified, will be automatically suggested based on the task type.'')]),
             (''eventLocation'', string_property
                ''Location for the calendar event, if mentioned in the request.'')]),
         (''required'', JArr [JStr ''time'', JStr ''task'', JStr ''email''])]\<rparr>\<close>

definition list_reminders_tool :: MCPTool where
  \<open>list_reminders_tool =
     \<lparr>name = ''list_reminders'',
      description = ''Lists all current reminders. Use this to find out what reminders have been set.'',
      inputSchema = JObj
        [(''type'', JStr ''object''), (''properties'', JObj []), (''required'', JArr [])]\<rparr>\<close>

text \<open>
  \<^verbatim>\<open>class MCPServerProtocol\<close>: the array \<^verbatim>\<open>tools\<close> and the map \<^verbatim>\<open>activeSessions\<close>. The map keeps
  its entries in insertion order; its key is the value of the session header, which is
  \<^verbatim>\<open>undefined\<close> (\<open>None\<close>) when the request carries none.
\<close>

record session_info =
  clientInfo :: "json option"
  connectedAt :: string

record MCPServerProtocol =
  tools :: "MCPTool list"
  activeSessions :: "(string option \<times> session_info) list"

text \<open>\<^verbatim>\<open>Map.prototype.set\<close>: an existing key keeps its place, a new one goes last.\<close>

fun map_set :: "'k \<Rightarrow> 'v \<Rightarrow> ('k \<times> 'v) list \<Rightarrow> ('k \<times> 'v) list" where
  "map_set k v [] = [(k, v)]"
| "map_set k v ((k', v') # m) = (if k' = k then (k, v) # m else (k', v') # map_set k v m)"

definition registerTools :: "MCPServerProtocol \<Rightarrow> MCPServerProtocol" where
  "registerTools s = s\<lparr>tools := [add_reminder_tool, send_email_reminder_tool, list_reminders_tool]\<rparr>"

text \<open>
  \<^verbatim>\<open>setupMCPEndpoints\<close> installs the handlers below on the Express application and leaves
  the fields of the object as they are. The constructor runs the field initialisers,
  then \<^verbatim>\<open>setupMCPEndpoints\<close>, then \<^verbatim>\<open>registerTools\<close>; no request is served before it returns.
\<close>

definition setupMCPEndpoints :: "MCPServerProtocol \<Rightarrow> MCPServerProtocol" where
  "setupMCPEndpoints s = s"

definition new_MCPServerProtocol :: MCPServerProtocol where
  "new_MCPServerProtocol = registerTools (setupMCPEndpoints \<lparr>tools = [], activeSessions = []\<rparr>)"

text \<open>
  What a handler hands to Express: \<^verbatim>\<open>res.json(response)\<close> sends status 200,
  \<^verbatim>\<open>res.status(500).json(response)\<close> status 500. \<^verbatim>\<open>res.json\<close> serialises the response when it
  is called, so the envelope of a reply holds the JSON of \<^verbatim>\<open>this.tools\<close> as the array was at
  that moment, not a reference to the array.
\<close>

record reply =
  status :: nat
  body :: MCPResponse

text \<open>
  The handler of \<^verbatim>\<open>POST /mcp/initialize\<close>. \<open>now\<close> is \<^verbatim>\<open>new Date().toISOString()\<close>, \<open>sessionId\<close> the
  header \<^verbatim>\<open>mcp-session-id\<close>. \<^verbatim>\<open>mcpRequest.params?.clientInfo\<close> is \<^verbatim>\<open>undefined\<close> when \<^verbatim>\<open>params\<close> is
  \<^verbatim>\<open>null\<close> or \<^verbatim>\<open>undefined\<close>.
\<close>

definition handle_initialize ::
  "string \<Rightarrow> string option \<Rightarrow> MCPRequest \<Rightarrow> MCPServerProtocol \<Rightarrow> MCPServerProtocol \<times> reply" where
  "handle_initialize now sessionId mcpRequest s =
     (let s' = s\<lparr>activeSessions :=
                   map_set sessionId
                     \<lparr>clientInfo = (case req_params mcpRequest of
                                       None \<Rightarrow> None
                                     | Some JNull \<Rightarrow> None
                                     | Some p \<Rightarrow> property p ''clientInfo''),
                      connectedAt = now\<rparr>
                     (activeSessions s)\<rparr>;
          caps = \<lparr>cap_tools = tools s', version = ''2024-11-05'',
                          features = \<lparr>streaming = Some False, cancellation = Some True,
                                      progress = Some True\<rparr>\<rparr>;
          response = \<lparr>resp_jsonrpc = ''2.0'', resp_id = req_id mcpRequest,
                      result = Some (capabilities_json caps), error = None\<rparr>
      in (s', \<lparr>status = 200, body = response\<rparr>))"

text \<open>The handler of \<^verbatim>\<open>POST /mcp/tools/list\<close>.\<close>

definition handle_tools_list :: "MCPRequest \<Rightarrow> MCPServerProtocol \<Rightarrow> reply" where
  "handle_tools_list mcpRequest s =
     (let response = \<lparr>resp_jsonrpc = ''2.0'', resp_id = req_id mcpRequest,
                      result = Some (JObj [(''tools'', JArr (map tool_json (tools s)))]),
                      error = None\<rparr>
      in \<lparr>status = 200, body = response\<rparr>)"

text \<open>
  What a tool implementation throws: an instance of \<^verbatim>\<open>Error\<close> with its message, or any
  other value.
\<close>

datatype failure = ErrorInstance string | NotAnError

text \<open>
  The three \<^verbatim>\<open>execute...\<close> methods post to the HTTP endpoints of the tools and return
  \<^verbatim>\<open>response.data\<close>; what comes back is outside this program, so their outcomes are
  parameters, as are the strings that \<^verbatim>\<open>JSON.stringify\<close> produces.
\<close>

record runtime =
  executeAddReminder :: "json option \<Rightarrow> failure + json"
  executeSendEmailReminder :: "json option \<Rightarrow> failure + json"
  executeListReminders :: "json option \<Rightarrow> failure + json"
  JSON_stringify :: "json \<Rightarrow> string"

text \<open>
  The handler of \<^verbatim>\<open>POST /mcp/tools/call\<close>. The destructuring of \<^verbatim>\<open>mcpRequest.params\<close> stands
  before the \<^verbatim>\<open>try\<close>: when \<^verbatim>\<open>params\<close> is \<^verbatim>\<open>null\<close> or \<^verbatim>\<open>undefined\<close> it raises outside of it, and
  the handler sends no envelope (\<open>None\<close>). The \<^verbatim>\<open>switch\<close> compares with \<^verbatim>\<open>===\<close>; \<open>route_tool\<close> is
  the \<^verbatim>\<open>switch\<close>, with \<open>Inl\<close> for what is thrown inside the \<^verbatim>\<open>try\<close>. The local \<^verbatim>\<open>name\<close> of the
  source is \<open>nm\<close> here.
\<close>

definition route_tool :: "runtime \<Rightarrow> json option \<Rightarrow> json option \<Rightarrow> failure + json" where
  "route_tool rt nm args =
     (if nm = Some (JStr ''add_reminder'') then executeAddReminder rt args
      else if nm = Some (JStr ''send_email_reminder'') then executeSendEmailReminder rt args
      else if nm = Some (JStr ''list_reminders'') then executeListReminders rt args
      else Inl (ErrorInstance (''Unknown tool: '' @ template nm)))"

definition handle_tools_call :: "runtime \<Rightarrow> MCPRequest \<Rightarrow> MCPServerProtocol \<Rightarrow> reply option" where
  "handle_tools_call rt mcpRequest s =
     (if nullish (req_params mcpRequest) then None
      else
        let params = the (req_params mcpRequest);
            nm = property params ''name'';
            args = property params ''arguments''
        in case route_tool rt nm args of
             Inr res \<Rightarrow>
               Some \<lparr>status = 200,
                     body = \<lparr>resp_jsonrpc = ''2.0'', resp_id = req_id mcpRequest,
                             result = Some (JObj [(''content'',
                               JArr [JObj [(''type'', JStr ''text''),
                                           (''text'', JStr (JSON_stringify rt res))]])]),
                             error = None\<rparr>\<rparr>
           | Inl err \<Rightarrow>
               Some \<lparr>status = 500,
                     body = \<lparr>resp_jsonrpc = ''2.0'', resp_id = req_id mcpRequest,
                             result = None,
                             error = Some \<lparr>code = - 32603,
                                           message = (case err of
                                                        ErrorInstance m \<Rightarrow> m
                                                      | NotAnError \<Rightarrow> ''Tool execution failed''),
                                           data = None\<rparr>\<rparr>\<rparr>)"

text \<open>
  The states of the server object: the constructed one, and what the handlers make of it
  (only the initialize handler assigns a field).
\<close>

inductive reachable :: "MCPServerProtocol \<Rightarrow> bool" where
  constructed: "reachable new_MCPServerProtocol"
| initialized: "reachable s \<Longrightarrow> reachable (fst (handle_initialize now sessionId mcpRequest s))"

section \<open>Protocol client (mcp-protocol.ts)\<close>

text \<open>
  \<^verbatim>\<open>class MCPClient\<close>. The field \<^verbatim>\<open>capabilities\<close> starts as \<^verbatim>\<open>null\<close> and is later assigned
  \<^verbatim>\<open>response.result\<close>, whatever the server sent.
\<close>

record MCPClient =
  serverUrl :: string
  sessionId :: string
  capabilities :: "json option"

text \<open>
  The constructor; \<open>now\<close> is \<^verbatim>\<open>Date.now()\<close> and \<open>rnd\<close> the string
  \<^verbatim>\<open>Math.random().toString(36).substr(2, 9)\<close>.
\<close>

definition new_MCPClient :: "int \<Rightarrow> string \<Rightarrow> string \<Rightarrow> MCPClient" where
  "new_MCPClient now rnd url =
     \<lparr>serverUrl = url, sessionId = ''mcp_session_'' @ show_int now @ ''_'' @ rnd,
      capabilities = Some JNull\<rparr>"

text \<open>
  The network. \<^verbatim>\<open>fetch(url, {method, headers, body})\<close> is a parameter: it rejects (\<open>Inl\<close>) or
  resolves with a response, of which the client reads \<^verbatim>\<open>status\<close>, \<^verbatim>\<open>statusText\<close> and the outcome
  of \<^verbatim>\<open>response.json()\<close>. The request body is the serialised request, passed here as the
  request itself. Every call of \<^verbatim>\<open>fetch\<close> is entered in a log of the requests issued.
\<close>

record http_response =
  http_status :: nat
  statusText :: string
  json_body :: "exn + json"

type_synonym fetch = "string \<Rightarrow> (string \<times> string) list \<Rightarrow> MCPRequest \<Rightarrow> exn + http_response"

type_synonym net_log = "(string \<times> MCPRequest) list"

definition ok :: "http_response \<Rightarrow> bool" where
  "ok response = (200 \<le> http_status response \<and> http_status response \<le> 299)"

text \<open>The headers that \<^verbatim>\<open>sendMCPRequest\<close> passes to \<^verbatim>\<open>fetch\<close>.\<close>

definition request_headers :: "MCPClient \<Rightarrow> (string \<times> string) list" where
  "request_headers c =
     [(''Content-Type'', ''application/json''), (''MCP-Session-ID'', sessionId c),
      (''MCP-Protocol-Version'', ''2024-11-05'')]"

text \<open>\<^verbatim>\<open>sendMCPRequest(endpoint, request)\<close>: the parsed envelope, or what is thrown.\<close>

definition sendMCPRequest ::
  "fetch \<Rightarrow> MCPClient \<Rightarrow> string \<Rightarrow> MCPRequest \<Rightarrow> net_log \<Rightarrow> (exn + json) \<times> net_log" where
  "sendMCPRequest fetch c endpoint request log =
     (let url = serverUrl c @ endpoint;
          log' = log @ [(url, request)]
      in case fetch url (request_headers c) request of
           Inl e \<Rightarrow> (Inl e, log')
         | Inr response \<Rightarrow>
             if \<not> ok response then
               (Inl (Error (''MCP request failed: '' @ show_nat (http_status response) @ '' '' @
                            statusText response)), log')
             else case json_body response of
                 Inl e \<Rightarrow> (Inl e, log')
               | Inr mcpResponse \<Rightarrow>
                   if nullish (Some mcpResponse) then (Inl TypeError, log')
                   else if truthy (property mcpResponse ''error'') then
                     (Inl (Error (''MCP Error '' @
                                  template (property (the (property mcpResponse ''error'')) ''code'') @ '': '' @
                                  template (property (the (property mcpResponse ''error'')) ''message''))),
                      log')
                   else (Inr mcpResponse, log'))"

text \<open>
  The two \<^verbatim>\<open>console.log\<close> calls of \<^verbatim>\<open>initialize\<close> after the assignment evaluate
  \<^verbatim>\<open>this.capabilities.tools.length\<close> and \<^verbatim>\<open>this.capabilities.tools.map(t => t.name).join(', ')\<close>.
  They go through exactly when \<^verbatim>\<open>capabilities\<close> has a property \<^verbatim>\<open>tools\<close> that is an array
  without a \<^verbatim>\<open>null\<close> element; otherwise a TypeError is raised inside the \<^verbatim>\<open>try\<close>.
\<close>

definition tools_listable :: "json option \<Rightarrow> bool" where
  "tools_listable v =
     (if nullish v then False
      else case property (the v) ''tools'' of
             Some (JArr ts) \<Rightarrow> list_all (\<lambda>t. t \<noteq> JNull) ts
           | _ \<Rightarrow> False)"

definition initialize_request :: MCPRequest where
  "initialize_request =
     \<lparr>req_jsonrpc = ''2.0'', req_id = Some (JNum 1), req_method = ''initialize'',
      req_params = Some (JObj
        [(''protocolVersion'', JStr ''2024-11-05''),
         (''capabilities'', JObj [(''roots'', JObj [(''listChanged'', JBool True)]),
                                  (''sampling'', JObj [])]),
         (''clientInfo'', JObj [(''name'', JStr ''MCP Learning Client''),
                                (''version'', JStr ''1.0.0'')])])\<rparr>"

text \<open>
  \<^verbatim>\<open>initialize()\<close>: the returned capabilities or the error thrown, the client object and the
  log after the call. Whatever is thrown inside the \<^verbatim>\<open>try\<close> is logged and replaced.
\<close>

definition initialize ::
  "fetch \<Rightarrow> MCPClient \<Rightarrow> net_log \<Rightarrow> (exn + json option) \<times> MCPClient \<times> net_log" where
  "initialize fetch c log =
     (case sendMCPRequest fetch c ''/mcp/initialize'' initialize_request log of
        (Inl e, log') \<Rightarrow> (Inl (Error ''Failed to establish MCP connection''), c, log')
      | (Inr response, log') \<Rightarrow>
          let c' = c\<lparr>capabilities := property response ''result''\<rparr>
          in if tools_listable (capabilities c') then (Inr (capabilities c'), c', log')
             else (Inl (Error ''Failed to establish MCP connection''), c', log'))"

text \<open>
  \<^verbatim>\<open>discoverTools()\<close>. After the guard and the request it evaluates
  \<^verbatim>\<open>response.result.tools || this.capabilities.tools\<close> and calls \<^verbatim>\<open>forEach\<close> on it, whose
  callback reads two properties of each element.
\<close>

definition discoverTools_request :: MCPRequest where
  "discoverTools_request =
     \<lparr>req_jsonrpc = ''2.0'', req_id = Some (JNum 2), req_method = ''tools/list'',
      req_params = None\<rparr>"

definition discoverTools ::
  "fetch \<Rightarrow> MCPClient \<Rightarrow> net_log \<Rightarrow> (exn + json) \<times> net_log" where
  "discoverTools fetch c log =
     (if \<not> truthy (capabilities c) then
        (Inl (Error ''MCP not initialized. Call initialize() first.''), log)
      else case sendMCPRequest fetch c ''/mcp/tools/list'' discoverTools_request log of
          (Inl e, log') \<Rightarrow> (Inl e, log')
        | (Inr response, log') \<Rightarrow>
            if nullish (property response ''result'') then (Inl TypeError, log')
            else
              let listed = property (the (property response ''result'')) ''tools'';
                  tls = (if truthy listed then listed
                         else property (the (capabilities c)) ''tools'')
              in case tls of
                   Some (JArr ts) \<Rightarrow>
                     if list_all (\<lambda>t. t \<noteq> JNull) ts then (Inr (JArr ts), log')
                     else (Inl TypeError, log')
                 | _ \<Rightarrow> (Inl TypeError, log'))"

text \<open>
  \<^verbatim>\<open>callTool(toolName, parameters)\<close>; \<open>now\<close> is what \<^verbatim>\<open>Date.now()\<close> returns when the request is
  built. The \<^verbatim>\<open>catch\<close> logs and rethrows; the client object is not assigned to.
\<close>

definition callTool_request :: "int \<Rightarrow> string \<Rightarrow> json option \<Rightarrow> MCPRequest" where
  "callTool_request now toolName parameters =
     \<lparr>req_jsonrpc = ''2.0'', req_id = Some (JNum now), req_method = ''tools/call'',
      req_params = Some (JObj ([(''name'', JStr toolName)] @ field ''arguments'' parameters))\<rparr>"

definition callTool ::
  "fetch \<Rightarrow> int \<Rightarrow> MCPClient \<Rightarrow> string \<Rightarrow> json option \<Rightarrow> net_log \<Rightarrow>
   (exn + json option) \<times> net_log" where
  "callTool fetch now c toolName parameters log =
     (case sendMCPRequest fetch c ''/mcp/tools/call'' (callTool_request now toolName parameters) log of
        (Inl e, log') \<Rightarrow> (Inl e, log')
      | (Inr response, log') \<Rightarrow> (Inr (property response ''result''), log'))"

text \<open>
  How a reply of the server reaches the client: the status as sent, a reason phrase chosen
  by the HTTP layer, and the envelope as the body.
\<close>

definition http_of_reply :: "string \<Rightarrow> reply \<Rightarrow> http_response" where
  "http_of_reply reason r =
     \<lparr>http_status = status r, statusText = reason, json_body = Inr (response_json (body r))\<rparr>"

section \<open>Notions used in the claims\<close>


text \<open>
  An envelope populates exactly one of \<^verbatim>\<open>result\<close> and \<^verbatim>\<open>error\<close>, as an object and as the
  JSON text sent.
\<close>

definition one_of_result_error :: "MCPResponse \<Rightarrow> bool" where
  "one_of_result_error r =
     (((result r \<noteq> None) \<noteq> (error r \<noteq> None)) \<and>
      ((property (response_json r) ''result'' \<noteq> None) \<noteq>
       (property (response_json r) ''error'' \<noteq> None)))"

section \<open>Concrete inputs\<close>

text \<open>A tracker after two recorded steps.\<close>

definition demo_tracker :: ExecutionTracker where
  "demo_tracker =
     \<lparr>steps =
       [\<lparr>step_id = ''step-1'', step_type = step_start, timestamp = ''t1'', content = ''begin'',
         actor = ''User'', target = ''Agent'', duration = None, metadata = None\<rparr>,
        \<lparr>step_id = ''step-2'', step_type = step_tool_call, timestamp = ''t2'', content = ''call'',
         actor = ''Agent'', target = ''MCPClient'', duration = None, metadata = None\<rparr>],
      stepCounter = 2\<rparr>"

text \<open>
  A runtime in which \<^verbatim>\<open>add_reminder\<close> succeeds, \<^verbatim>\<open>send_email_reminder\<close> fails with an
  \<^verbatim>\<open>Error\<close> and \<^verbatim>\<open>list_reminders\<close> fails with a value that is not an \<^verbatim>\<open>Error\<close>.
\<close>

definition demo_runtime :: runtime where
  \<open>demo_runtime =
     \<lparr>executeAddReminder = (\<lambda>args. Inr (JObj [(''status'', JStr ''ok'')])),
      executeSendEmailReminder = (\<lambda>args. Inl (ErrorInstance ''Request failed with status code 500'')),
      executeListReminders = (\<lambda>args. Inl NotAnError),
      JSON_stringify = (\<lambda>j. if j = JObj [(''status'', JStr ''ok'')] then ''{"status":"ok"}''
                            else ''null'')\<rparr>\<close>

text \<open>
  A transport that hands a request to the handler of its URL on a server in state \<open>s\<close>
  and returns the reply with the usual reason phrase; a request that the handler leaves
  without reply appears as a rejected \<^verbatim>\<open>fetch\<close>.
\<close>

definition local_fetch :: "runtime \<Rightarrow> MCPServerProtocol \<Rightarrow> fetch" where
  "local_fetch rt s url headers request =
     (if url = ''http://localhost:3000/mcp/initialize'' then
        Inr (http_of_reply ''OK''
               (snd (handle_initialize ''2026-01-01T00:00:00.000Z''
                       (map_of headers ''MCP-Session-ID'') request s)))
      else if url = ''http://localhost:3000/mcp/tools/list'' then
        Inr (http_of_reply ''OK'' (handle_tools_list request s))
      else if url = ''http://localhost:3000/mcp/tools/call'' then
        (case handle_tools_call rt request s of
           None \<Rightarrow> Inl TypeError
         | Some r \<Rightarrow>
             Inr (http_of_reply (if status r = 200 then ''OK'' else ''Internal Server Error'') r))
      else Inr \<lparr>http_status = 404, statusText = ''Not Found'', json_body = Inl SyntaxError\<rparr>)"

text \<open>A stub transport that answers every request with the same outcome.\<close>

definition stub_fetch :: "exn + http_response \<Rightarrow> fetch" where
  "stub_fetch outcome url headers request = outcome"

definition demo_client :: MCPClient where
  "demo_client = new_MCPClient 1700000000000 ''k3x9q2m1z'' ''http://localhost:3000''"

text \<open>Replies of a server other than this one: an error envelope, and a result without tools.\<close>

definition boom_response :: http_response where
  "boom_response =
     \<lparr>http_status = 200, statusText = ''OK'',
      json_body = Inr (JObj [(''jsonrpc'', JStr ''2.0''), (''id'', JNum 1),
                             (''error'', JObj [(''code'', JNum (- 32603)),
                                               (''message'', JStr ''boom'')])])\<rparr>"

definition empty_result_response :: http_response where
  "empty_result_response =
     \<lparr>http_status = 200, statusText = ''OK'',
      json_body = Inr (JObj [(''jsonrpc'', JStr ''2.0''), (''id'', JNum 1),
                             (''result'', JObj [])])\<rparr>"

section \<open>Properties of the execution tracker\<close>

lemma digit_val_digit: "d < 10 \<Longrightarrow> digit_val (digit d) = d"
proof -
  assume "d < 10"
  then have "d \<in> {0, 1, 2, 3, 4, 5, 6, 7, 8, 9}" by auto
  then show ?thesis by (auto simp: digit_def digit_val_def)
qed

lemma read_nat_snoc: "read_nat (s @ [c]) = 10 * read_nat s + digit_val c"
  by (simp add: read_nat_def)

lemma read_show_nat: "read_nat (show_nat n) = n"
proof (induction n rule: show_nat.induct)
  case (1 n)
  show ?case
  proof (cases "n < 10")
    case True
    then show ?thesis by (subst show_nat.simps) (simp add: read_nat_def digit_val_digit)
  next
    case False
    then have "read_nat (show_nat n) = 10 * read_nat (show_nat (n div 10)) + digit_val (digit (n mod 10))"
      by (subst show_nat.simps) (simp add: read_nat_snoc)
    also have "\<dots> = 10 * (n div 10) + n mod 10"
      using 1 False by (simp add: digit_val_digit)
    finally show ?thesis by simp
  qed
qed

lemma show_nat_inj: "show_nat m = show_nat n \<Longrightarrow> m = n"
  by (metis read_show_nat)

lemma upt_shift: "[Suc n ..< Suc (n + Suc m)] = Suc n # [Suc (Suc n) ..< Suc (Suc n + m)]"
  by (simp add: upt_conv_Cons)

lemma addSteps_general:
  "addSteps cs t =
     (map (\<lambda>k. ''step-'' @ show_nat k) [Suc (stepCounter t) ..< Suc (stepCounter t + length cs)],
      \<lparr>steps = steps t @ map2 step_of_call [Suc (stepCounter t) ..< Suc (stepCounter t + length cs)] cs,
       stepCounter = stepCounter t + length cs\<rparr>)"
proof (induction cs arbitrary: t)
  case Nil
  show ?case by simp
next
  case (Cons c cs)
  obtain i t' where r: "record_call c t = (i, t')" by (cases "record_call c t")
  then have i: "i = ''step-'' @ show_nat (Suc (stepCounter t))"
    and c': "stepCounter t' = Suc (stepCounter t)"
    and s': "steps t' = steps t @ [step_of_call (Suc (stepCounter t)) c]"
    by (auto simp: record_call_def addStep_def Let_def step_of_call_def)
  have len: "length (c # cs) = Suc (length cs)" by simp
  show ?case
    unfolding len upt_shift addSteps.simps r
    by (simp only: Cons.IH [of t'] c' s' i Let_def prod.case list.map zip_Cons_Cons
          append_assoc append_Cons append_Nil add_Suc_right add_Suc)
qed

lemma step_labels_distinct: "distinct (map (\<lambda>k. ''step-'' @ show_nat k) [m ..< n])"
  by (simp add: distinct_map inj_on_def show_nat_inj)

lemma map_step_id_run:
  "length ks = length cs \<Longrightarrow>
   map step_id (map2 step_of_call ks cs) = map (\<lambda>k. ''step-'' @ show_nat k) ks"
  by (induction ks cs rule: list_induct2) (simp_all add: step_of_call_def)

lemma find_first_index:
  "List.find P xs = Some x \<Longrightarrow>
   length (takeWhile (\<lambda>s. \<not> P s) xs) < length xs \<and>
   xs ! length (takeWhile (\<lambda>s. \<not> P s) xs) = x \<and> P x \<and>
   (\<forall>j < length (takeWhile (\<lambda>s. \<not> P s) xs). \<not> P (xs ! j))"
proof (induction xs)
  case Nil
  then show ?case by simp
next
  case (Cons a xs)
  show ?case
  proof (cases "P a")
    case True
    with Cons.prems show ?thesis by simp
  next
    case False
    with Cons.prems have "List.find P xs = Some x" by simp
    from Cons.IH [OF this] False show ?thesis
      by (auto simp: nth_Cons split: nat.splits)
  qed
qed

lemma demo_tracker_steps:
  "steps demo_tracker =
     [\<lparr>step_id = ''step-1'', step_type = step_start, timestamp = ''t1'', content = ''begin'',
       actor = ''User'', target = ''Agent'', duration = None, metadata = None\<rparr>,
      \<lparr>step_id = ''step-2'', step_type = step_tool_call, timestamp = ''t2'', content = ''call'',
       actor = ''Agent'', target = ''MCPClient'', duration = None, metadata = None\<rparr>]"
  by (simp add: demo_tracker_def)

section \<open>Facts about the server\<close>

lemma reachable_tools:
  "reachable s \<Longrightarrow> tools s = [add_reminder_tool, send_email_reminder_tool, list_reminders_tool]"
  by (induction rule: reachable.induct)
     (simp_all add: new_MCPServerProtocol_def registerTools_def setupMCPEndpoints_def
        handle_initialize_def Let_def)

lemma registered_names:
  "map name [add_reminder_tool, send_email_reminder_tool, list_reminders_tool] =
     [''add_reminder'', ''send_email_reminder'', ''list_reminders'']"
  by (simp add: add_reminder_tool_def send_email_reminder_tool_def list_reminders_tool_def)



lemma wire_result: "property (response_json r) ''result'' = result r"
  by (cases "resp_id r"; cases "result r"; cases "error r")
     (simp_all add: response_json_def field_def)

lemma wire_error: "property (response_json r) ''error'' = map_option error_json (error r)"
  by (cases "resp_id r"; cases "result r"; cases "error r")
     (simp_all add: response_json_def field_def)

lemma one_of_result_errorI:
  "(result r \<noteq> None) \<noteq> (error r \<noteq> None) \<Longrightarrow> one_of_result_error r"
  by (simp add: one_of_result_error_def wire_result wire_error)

lemma handle_tools_call_cases:
  "handle_tools_call rt mcpRequest s = Some r \<Longrightarrow>
   (\<exists>res. result (body r) = Some res \<and> error (body r) = None \<and> status r = 200) \<or>
   (\<exists>e. result (body r) = None \<and> error (body r) = Some e \<and> code e = - 32603 \<and> status r = 500)"
  by (auto simp: handle_tools_call_def Let_def split: if_splits sum.splits)

lemma demo_call_ok:
  "handle_tools_call demo_runtime (callTool_request 5 ''add_reminder'' (Some (JObj [])))
     new_MCPServerProtocol =
   Some \<lparr>status = 200,
         body = \<lparr>resp_jsonrpc = ''2.0'', resp_id = Some (JNum 5),
                 result = Some (JObj [(''content'',
                   JArr [JObj [(''type'', JStr ''text''),
                               (''text'', JStr ''{\"status\":\"ok\"}'')]])]),
                 error = None\<rparr>\<rparr>"
  by (simp add: handle_tools_call_def callTool_request_def route_tool_def demo_runtime_def
      field_def)

lemma demo_call_unknown:
  "handle_tools_call demo_runtime (callTool_request 5 ''missing'' (Some (JObj [])))
     new_MCPServerProtocol =
   Some \<lparr>status = 500,
         body = \<lparr>resp_jsonrpc = ''2.0'', resp_id = Some (JNum 5), result = None,
                 error = Some \<lparr>code = - 32603, message = ''Unknown tool: missing'',
                               data = None\<rparr>\<rparr>\<rparr>"
  by (simp add: handle_tools_call_def callTool_request_def route_tool_def demo_runtime_def
      field_def template_def)

lemma demo_call_failed:
  "handle_tools_call demo_runtime (callTool_request 5 ''send_email_reminder'' (Some (JObj [])))
     new_MCPServerProtocol =
   Some \<lparr>status = 500,
         body = \<lparr>resp_jsonrpc = ''2.0'', resp_id = Some (JNum 5), result = None,
                 error = Some \<lparr>code = - 32603,
                               message = ''Request failed with status code 500'',
                               data = None\<rparr>\<rparr>\<rparr>"
  by (simp add: handle_tools_call_def callTool_request_def route_tool_def demo_runtime_def
      field_def)

section \<open>Facts about the client\<close>


lemma sendMCPRequest_log:
  "snd (sendMCPRequest fetch c endpoint request log) = log @ [(serverUrl c @ endpoint, request)]"
  by (simp add: sendMCPRequest_def Let_def split: sum.splits)

lemma sendMCPRequest_rejected:
  "fetch (serverUrl c @ endpoint) (request_headers c) request = Inl e \<Longrightarrow>
   fst (sendMCPRequest fetch c endpoint request log) = Inl e"
  by (simp add: sendMCPRequest_def Let_def)

lemma sendMCPRequest_not_ok:
  "fetch (serverUrl c @ endpoint) (request_headers c) request = Inr response \<Longrightarrow>
   \<not> ok response \<Longrightarrow>
   fst (sendMCPRequest fetch c endpoint request log) =
     Inl (Error (''MCP request failed: '' @ show_nat (http_status response) @ '' '' @
                 statusText response))"
  by (simp add: sendMCPRequest_def Let_def)

lemma sendMCPRequest_unparsable:
  "fetch (serverUrl c @ endpoint) (request_headers c) request = Inr response \<Longrightarrow>
   ok response \<Longrightarrow> json_body response = Inl e \<Longrightarrow>
   fst (sendMCPRequest fetch c endpoint request log) = Inl e"
  by (simp add: sendMCPRequest_def Let_def)

lemma truthy_not_nullish: "truthy (property j k) \<Longrightarrow> \<not> nullish (Some j)"
  by (cases j) simp_all

lemma sendMCPRequest_error_envelope:
  "fetch (serverUrl c @ endpoint) (request_headers c) request = Inr response \<Longrightarrow>
   ok response \<Longrightarrow> json_body response = Inr envelope \<Longrightarrow>
   property envelope ''error'' = Some err \<Longrightarrow> truthy (Some err) \<Longrightarrow>
   fst (sendMCPRequest fetch c endpoint request log) =
     Inl (Error (''MCP Error '' @ template (property err ''code'') @ '': '' @
                 template (property err ''message'')))"
proof -
  assume f: "fetch (serverUrl c @ endpoint) (request_headers c) request = Inr response"
    and o: "ok response" and b: "json_body response = Inr envelope"
    and e: "property envelope ''error'' = Some err" and t: "truthy (Some err)"
  from e t have "truthy (property envelope ''error'')" by simp
  then have n: "\<not> nullish (Some envelope)" by (rule truthy_not_nullish)
  show ?thesis
    using f o b e t n by (simp add: sendMCPRequest_def Let_def)
qed

lemma initialize_request_failed:
  "fst (sendMCPRequest fetch c ''/mcp/initialize'' initialize_request log) = Inl cause \<Longrightarrow>
   initialize fetch c log =
     (Inl (Error ''Failed to establish MCP connection''), c,
      log @ [(serverUrl c @ ''/mcp/initialize'', initialize_request)])"
proof -
  assume a: "fst (sendMCPRequest fetch c ''/mcp/initialize'' initialize_request log) = Inl cause"
  have "sendMCPRequest fetch c ''/mcp/initialize'' initialize_request log =
      (Inl cause, log @ [(serverUrl c @ ''/mcp/initialize'', initialize_request)])"
    using a sendMCPRequest_log [of fetch c "''/mcp/initialize''" initialize_request log]
    by (cases "sendMCPRequest fetch c ''/mcp/initialize'' initialize_request log") simp
  then show ?thesis by (simp add: initialize_def)
qed

lemma initialize_error_fixed:
  "fst (initialize fetch c log) = Inl e \<Longrightarrow> e = Error ''Failed to establish MCP connection''"
  by (auto simp: initialize_def Let_def split: prod.splits sum.splits if_splits)

lemma show_int_code: "show_int (- 32603) = ''-32603''"
  by (simp add: show_int_def show_nat.simps digit_def)

lemma demo_client_url: "serverUrl demo_client = ''http://localhost:3000''"
  by (simp add: demo_client_def new_MCPClient_def)

lemma demo_client_capabilities: "capabilities demo_client = Some JNull"
  by (simp add: demo_client_def new_MCPClient_def)

lemma boom_cause:
  "fst (sendMCPRequest (stub_fetch (Inr boom_response)) demo_client ''/mcp/initialize''
          initialize_request []) = Inl (Error ''MCP Error -32603: boom'')"
proof -
  have "fst (sendMCPRequest (stub_fetch (Inr boom_response)) demo_client ''/mcp/initialize''
          initialize_request []) =
        Inl (Error (''MCP Error '' @
          template (property (JObj [(''code'', JNum (- 32603)), (''message'', JStr ''boom'')]) ''code'') @
          '': '' @
          template (property (JObj [(''code'', JNum (- 32603)), (''message'', JStr ''boom'')]) ''message'')))"
    by (rule sendMCPRequest_error_envelope
          [where response = boom_response
             and envelope = "JObj [(''jsonrpc'', JStr ''2.0''), (''id'', JNum 1),
                   (''error'', JObj [(''code'', JNum (- 32603)), (''message'', JStr ''boom'')])]"
             and err = "JObj [(''code'', JNum (- 32603)), (''message'', JStr ''boom'')]"])
       (simp_all add: stub_fetch_def boom_response_def ok_def)
  then show ?thesis by (simp add: template_def show_int_code)
qed

lemma discoverTools_guard:
  "\<not> truthy (capabilities c) \<Longrightarrow>
   discoverTools fetch c log = (Inl (Error ''MCP not initialized. Call initialize() first.''), log)"
  by (simp add: discoverTools_def)

lemma callTool_log:
  "snd (callTool fetch now c toolName parameters log) =
     log @ [(serverUrl c @ ''/mcp/tools/call'', callTool_request now toolName parameters)]"
proof -
  obtain x l where e: "sendMCPRequest fetch c ''/mcp/tools/call''
      (callTool_request now toolName parameters) log = (x, l)"
    by (cases "sendMCPRequest fetch c ''/mcp/tools/call''
      (callTool_request now toolName parameters) log")
  with sendMCPRequest_log [of fetch c "''/mcp/tools/call''"
      "callTool_request now toolName parameters" log]
  have "l = log @ [(serverUrl c @ ''/mcp/tools/call'', callTool_request now toolName parameters)]"
    by simp
  with e show ?thesis by (cases x) (simp_all add: callTool_def)
qed





section \<open>Claims about the execution tracker\<close>

text \<open>
  C8. For every tracker state, \<^verbatim>\<open>clear\<close> empties the step sequence and sets the counter to
  zero, so that a run of \<open>n\<close> calls of \<^verbatim>\<open>addStep\<close> after it returns the ids \<^verbatim>\<open>step-1\<close> to
  \<^verbatim>\<open>step-n\<close> in this order and leaves exactly the \<open>n\<close> steps of the run, the \<open>k\<close>-th with id
  \<^verbatim>\<open>step-k\<close> and the arguments of the \<open>k\<close>-th call; the numbers in the ids are \<open>1, ..., n\<close>,
  strictly increasing, and the ids are pairwise distinct.
\<close>

theorem reset_then_record:
  "steps (clear t) = [] \<and> stepCounter (clear t) = 0 \<and>
   fst (addSteps cs (clear t)) = map (\<lambda>k. ''step-'' @ show_nat k) [1 ..< Suc (length cs)] \<and>
   map (\<lambda>i. read_nat (drop 5 i)) (fst (addSteps cs (clear t))) = [1 ..< Suc (length cs)] \<and>
   steps (snd (addSteps cs (clear t))) = map2 step_of_call [1 ..< Suc (length cs)] cs \<and>
   map step_id (steps (snd (addSteps cs (clear t)))) =
     map (\<lambda>k. ''step-'' @ show_nat k) [1 ..< Suc (length cs)] \<and>
   distinct (map step_id (steps (snd (addSteps cs (clear t)))))"
proof -
  have c: "steps (clear t) = []" "stepCounter (clear t) = 0"
    by (simp_all add: clear_def)
  have run: "addSteps cs (clear t) =
     (map (\<lambda>k. ''step-'' @ show_nat k) [1 ..< Suc (length cs)],
      \<lparr>steps = map2 step_of_call [1 ..< Suc (length cs)] cs, stepCounter = length cs\<rparr>)"
    unfolding addSteps_general [of cs "clear t"] c
    by (simp only: add_0 One_nat_def append_Nil)
  have ids: "map step_id (map2 step_of_call [1 ..< Suc (length cs)] cs) =
     map (\<lambda>k. ''step-'' @ show_nat k) [1 ..< Suc (length cs)]"
    by (rule map_step_id_run) (simp del: upt_Suc)
  have nums: "map (\<lambda>i. read_nat (drop 5 i))
      (map (\<lambda>k. ''step-'' @ show_nat k) [1 ..< Suc (length cs)]) = [1 ..< Suc (length cs)]"
    by (simp add: comp_def read_show_nat del: upt_Suc)
  show ?thesis
    using c ids nums step_labels_distinct [of 1 "Suc (length cs)"] by (simp add: run del: upt_Suc)
qed

text \<open>
  C9. For every tracker state and every call \<^verbatim>\<open>updateStepDuration(i, d)\<close>: when no recorded
  step has the id \<open>i\<close> the tracker is unchanged; when some step has it, the first such
  step gets the duration \<open>d\<close>, and its other fields, every other step and the counter are
  as before.
\<close>

theorem updateStepDuration_frame:
  "((\<forall>s \<in> set (steps t). step_id s \<noteq> i) \<longrightarrow> updateStepDuration i d t = t) \<and>
   ((\<exists>s \<in> set (steps t). step_id s = i) \<longrightarrow>
      (\<exists>k < length (steps t).
         step_id (steps t ! k) = i \<and> (\<forall>j < k. step_id (steps t ! j) \<noteq> i) \<and>
         updateStepDuration i d t =
           t\<lparr>steps := (steps t)[k := (steps t ! k)\<lparr>duration := Some d\<rparr>]\<rparr>))"
proof (intro conjI impI)
  assume "\<forall>s \<in> set (steps t). step_id s \<noteq> i"
  then have "List.find (\<lambda>s. step_id s = i) (steps t) = None"
    by (simp add: find_None_iff)
  then show "updateStepDuration i d t = t"
    by (simp add: updateStepDuration_def)
next
  assume "\<exists>s \<in> set (steps t). step_id s = i"
  then obtain x where f: "List.find (\<lambda>s. step_id s = i) (steps t) = Some x"
    by (cases "List.find (\<lambda>s. step_id s = i) (steps t)") (auto simp: find_None_iff)
  let ?k = "length (takeWhile (\<lambda>s. step_id s \<noteq> i) (steps t))"
  from find_first_index [OF f]
  have k: "?k < length (steps t)" "steps t ! ?k = x" "step_id x = i"
    "\<forall>j < ?k. step_id (steps t ! j) \<noteq> i"
    by simp_all
  have "updateStepDuration i d t = t\<lparr>steps := (steps t)[?k := (steps t ! ?k)\<lparr>duration := Some d\<rparr>]\<rparr>"
    by (simp add: updateStepDuration_def f k(2))
  with k show "\<exists>k < length (steps t).
         step_id (steps t ! k) = i \<and> (\<forall>j < k. step_id (steps t ! j) \<noteq> i) \<and>
         updateStepDuration i d t =
           t\<lparr>steps := (steps t)[k := (steps t ! k)\<lparr>duration := Some d\<rparr>]\<rparr>"
    by blast
qed

text \<open>
  Both cases at a tracker with two steps: an unknown id, and the id of the second step.
\<close>

theorem updateStepDuration_frame_witness:
  "updateStepDuration ''step-9'' 40 demo_tracker = demo_tracker \<and>
   steps (updateStepDuration ''step-2'' 40 demo_tracker) =
     [\<lparr>step_id = ''step-1'', step_type = step_start, timestamp = ''t1'', content = ''begin'',
       actor = ''User'', target = ''Agent'', duration = None, metadata = None\<rparr>,
      \<lparr>step_id = ''step-2'', step_type = step_tool_call, timestamp = ''t2'', content = ''call'',
       actor = ''Agent'', target = ''MCPClient'', duration = Some 40, metadata = None\<rparr>]"
proof -
  have a: "\<forall>s \<in> set (steps demo_tracker). step_id s \<noteq> ''step-9''"
    by (simp add: demo_tracker_steps)
  have b: "\<exists>s \<in> set (steps demo_tracker). step_id s = ''step-2''"
    by (simp add: demo_tracker_steps)
  from updateStepDuration_frame [of demo_tracker "''step-9''" 40] a
  have 1: "updateStepDuration ''step-9'' 40 demo_tracker = demo_tracker" by blast
  from updateStepDuration_frame [of demo_tracker "''step-2''" 40] b
  obtain k where k: "k < length (steps demo_tracker)"
    "step_id (steps demo_tracker ! k) = ''step-2''"
    "updateStepDuration ''step-2'' 40 demo_tracker =
       demo_tracker\<lparr>steps := (steps demo_tracker)[k := (steps demo_tracker ! k)\<lparr>duration := Some 40\<rparr>]\<rparr>"
    by blast
  from k(1) have "k = 0 \<or> k = 1" by (auto simp: demo_tracker_steps)
  with k(2) have "k = 1" by (auto simp: demo_tracker_steps)
  with k(3) have 2: "steps (updateStepDuration ''step-2'' 40 demo_tracker) =
     [\<lparr>step_id = ''step-1'', step_type = step_start, timestamp = ''t1'', content = ''begin'',
       actor = ''User'', target = ''Agent'', duration = None, metadata = None\<rparr>,
      \<lparr>step_id = ''step-2'', step_type = step_tool_call, timestamp = ''t2'', content = ''call'',
       actor = ''Agent'', target = ''MCPClient'', duration = Some 40, metadata = None\<rparr>]"
    by (simp add: demo_tracker_steps)
  from 1 2 show ?thesis by simp
qed

section \<open>Claims about the protocol server\<close>

text \<open>
  C3. Every response envelope that a handler of the server produces (initialize,
  \<^verbatim>\<open>tools/list\<close>, and \<^verbatim>\<open>tools/call\<close> in its success and its failure branch) populates exactly
  one of \<^verbatim>\<open>result\<close> and \<^verbatim>\<open>error\<close>, never both and never neither; the same holds of the JSON
  object sent.
\<close>

theorem envelope_exactly_one:
  "one_of_result_error (body (snd (handle_initialize now sid mcpRequest s))) \<and>
   one_of_result_error (body (handle_tools_list mcpRequest s)) \<and>
   (\<forall>r. handle_tools_call rt mcpRequest s = Some r \<longrightarrow> one_of_result_error (body r))"
proof (intro conjI allI impI)
  show "one_of_result_error (body (snd (handle_initialize now sid mcpRequest s)))"
    by (rule one_of_result_errorI) (simp add: handle_initialize_def Let_def)
  show "one_of_result_error (body (handle_tools_list mcpRequest s))"
    by (rule one_of_result_errorI) (simp add: handle_tools_list_def)
next
  fix r
  assume "handle_tools_call rt mcpRequest s = Some r"
  from handle_tools_call_cases [OF this]
  show "one_of_result_error (body r)"
    by (auto intro: one_of_result_errorI)
qed

text \<open>
  The success branch and the failure branch of \<^verbatim>\<open>tools/call\<close> at concrete requests.
\<close>

theorem envelope_exactly_one_witness:
  "one_of_result_error
     \<lparr>resp_jsonrpc = ''2.0'', resp_id = Some (JNum 5),
      result = Some (JObj [(''content'',
        JArr [JObj [(''type'', JStr ''text''), (''text'', JStr ''{\"status\":\"ok\"}'')]])]),
      error = None\<rparr> \<and>
   one_of_result_error
     \<lparr>resp_jsonrpc = ''2.0'', resp_id = Some (JNum 5), result = None,
      error = Some \<lparr>code = - 32603, message = ''Unknown tool: missing'', data = None\<rparr>\<rparr>"
  using envelope_exactly_one [of "''t''" None "callTool_request 5 ''add_reminder'' (Some (JObj []))"
      new_MCPServerProtocol demo_runtime]
    envelope_exactly_one [of "''t''" None "callTool_request 5 ''missing'' (Some (JObj []))"
      new_MCPServerProtocol demo_runtime]
  by (simp add: demo_call_ok demo_call_unknown)



text \<open>
  C7. For every \<^verbatim>\<open>tools/call\<close> request that names a registered tool whose implementation
  resolves with \<open>r\<close>, the reply echoes the id of the request, and its result is
  \<^verbatim>\<open>{content: [{type: "text", text: JSON.stringify(r)}]}\<close>, the same wrapping for each of the
  three tools.
\<close>

theorem tools_call_success_wrapping:
  "reachable s \<Longrightarrow> n \<in> set (map name (tools s)) \<Longrightarrow>
   req_params mcpRequest = Some params \<Longrightarrow> property params ''name'' = Some (JStr n) \<Longrightarrow>
   (n = ''add_reminder'' \<and> executeAddReminder rt (property params ''arguments'') = Inr r) \<or>
   (n = ''send_email_reminder'' \<and>
      executeSendEmailReminder rt (property params ''arguments'') = Inr r) \<or>
   (n = ''list_reminders'' \<and> executeListReminders rt (property params ''arguments'') = Inr r) \<Longrightarrow>
   handle_tools_call rt mcpRequest s =
     Some \<lparr>status = 200,
           body = \<lparr>resp_jsonrpc = ''2.0'', resp_id = req_id mcpRequest,
                   result = Some (JObj [(''content'',
                     JArr [JObj [(''type'', JStr ''text''),
                                 (''text'', JStr (JSON_stringify rt r))]])]),
                   error = None\<rparr>\<rparr>"
proof -
  assume p: "req_params mcpRequest = Some params"
    and n: "property params ''name'' = Some (JStr n)"
    and h: "(n = ''add_reminder'' \<and> executeAddReminder rt (property params ''arguments'') = Inr r) \<or>
      (n = ''send_email_reminder'' \<and>
         executeSendEmailReminder rt (property params ''arguments'') = Inr r) \<or>
      (n = ''list_reminders'' \<and> executeListReminders rt (property params ''arguments'') = Inr r)"
  from n have "params \<noteq> JNull" by auto
  then have nn: "\<not> nullish (Some params)" by (cases params) simp_all
  from h have rt: "route_tool rt (Some (JStr n)) (property params ''arguments'') = Inr r"
    by (auto simp: route_tool_def)
  show ?thesis
    by (simp add: handle_tools_call_def p nn n rt)
qed

text \<open>A call of \<^verbatim>\<open>add_reminder\<close> on a freshly constructed server.\<close>

theorem tools_call_success_wrapping_witness:
  "handle_tools_call demo_runtime (callTool_request 5 ''add_reminder'' (Some (JObj [])))
     new_MCPServerProtocol =
   Some \<lparr>status = 200,
         body = \<lparr>resp_jsonrpc = ''2.0'', resp_id = Some (JNum 5),
                 result = Some (JObj [(''content'',
                   JArr [JObj [(''type'', JStr ''text''),
                               (''text'', JStr ''{\"status\":\"ok\"}'')]])]),
                 error = None\<rparr>\<rparr>"
proof -
  have r: "reachable new_MCPServerProtocol" by (rule reachable.constructed)
  have m: "''add_reminder'' \<in> set (map name (tools new_MCPServerProtocol))"
    unfolding reachable_tools [OF r] registered_names by simp
  have p: "req_params (callTool_request 5 ''add_reminder'' (Some (JObj []))) =
      Some (JObj [(''name'', JStr ''add_reminder''), (''arguments'', JObj [])])"
    by (simp add: callTool_request_def field_def)
  have n: "property (JObj [(''name'', JStr ''add_reminder''), (''arguments'', JObj [])]) ''name'' =
      Some (JStr ''add_reminder'')"
    by simp
  have h: "executeAddReminder demo_runtime
      (property (JObj [(''name'', JStr ''add_reminder''), (''arguments'', JObj [])]) ''arguments'') =
      Inr (JObj [(''status'', JStr ''ok'')])"
    by (simp add: demo_runtime_def)
  from tools_call_success_wrapping [OF r m p n, of demo_runtime "JObj [(''status'', JStr ''ok'')]"] h
  show ?thesis by (simp add: callTool_request_def demo_runtime_def field_def)
qed

text \<open>
  C10. In every reachable state and for every initialize request, whatever protocol
  version or client identity it carries and whether or not there is a session header, the
  handler answers with status 200 and a result envelope (no error) that echoes the id; the
  capabilities hold the three registered descriptors, the version \<^verbatim>\<open>2024-11-05\<close> and the
  flags \<^verbatim>\<open>streaming\<close> false, \<^verbatim>\<open>cancellation\<close> true, \<^verbatim>\<open>progress\<close> true. Nothing of the request is
  validated, and the registry is left as it was.
\<close>

theorem initialize_always_result:
  "reachable s \<Longrightarrow>
   snd (handle_initialize now sid mcpRequest s) =
     \<lparr>status = 200,
      body = \<lparr>resp_jsonrpc = ''2.0'', resp_id = req_id mcpRequest,
              result = Some (JObj
                [(''tools'', JArr (map tool_json
                    [add_reminder_tool, send_email_reminder_tool, list_reminders_tool])),
                 (''version'', JStr ''2024-11-05''),
                 (''features'', JObj [(''streaming'', JBool False), (''cancellation'', JBool True),
                                      (''progress'', JBool True)])]),
              error = None\<rparr>\<rparr> \<and>
   tools (fst (handle_initialize now sid mcpRequest s)) = tools s"
proof -
  assume r: "reachable s"
  have t: "tools s = [add_reminder_tool, send_email_reminder_tool, list_reminders_tool]"
    by (rule reachable_tools [OF r])
  show ?thesis
    by (simp add: handle_initialize_def Let_def capabilities_json_def features_json_def
        field_def t)
qed

text \<open>A request without session header that asks for another protocol version.\<close>

theorem initialize_always_result_witness:
  "snd (handle_initialize ''2026-01-01T00:00:00.000Z'' None
          \<lparr>req_jsonrpc = ''2.0'', req_id = Some (JStr ''a1''), req_method = ''initialize'',
           req_params = Some (JObj [(''protocolVersion'', JStr ''1999-01-01'')])\<rparr>
          new_MCPServerProtocol) =
     \<lparr>status = 200,
      body = \<lparr>resp_jsonrpc = ''2.0'', resp_id = Some (JStr ''a1''),
              result = Some (JObj
                [(''tools'', JArr (map tool_json
                    [add_reminder_tool, send_email_reminder_tool, list_reminders_tool])),
                 (''version'', JStr ''2024-11-05''),
                 (''features'', JObj [(''streaming'', JBool False), (''cancellation'', JBool True),
                                      (''progress'', JBool True)])]),
              error = None\<rparr>\<rparr>"
proof -
  have r: "reachable new_MCPServerProtocol" by (rule reachable.constructed)
  from initialize_always_result [OF r] show ?thesis by simp
qed

section \<open>Claims about the protocol client\<close>




text \<open>
  C2. On a client whose \<^verbatim>\<open>capabilities\<close> is still \<^verbatim>\<open>null\<close>, \<^verbatim>\<open>discoverTools\<close> throws the
  not-initialized error and issues no request (lemma \<open>discoverTools_guard\<close>), while
  \<^verbatim>\<open>callTool\<close> has no such guard: on the freshly constructed client it sends the request and
  returns the result of the tool.
\<close>

theorem callTool_before_initialize:
  "capabilities demo_client = Some JNull \<and>
   discoverTools (local_fetch demo_runtime new_MCPServerProtocol) demo_client [] =
     (Inl (Error ''MCP not initialized. Call initialize() first.''), []) \<and>
   callTool (local_fetch demo_runtime new_MCPServerProtocol) 1700000000000 demo_client
       ''add_reminder''
       (Some (JObj [(''time'', JStr ''10:00 AM''), (''task'', JStr ''call the doctor'')])) [] =
     (Inr (Some (JObj [(''content'',
         JArr [JObj [(''type'', JStr ''text''), (''text'', JStr ''{\"status\":\"ok\"}'')]])])),
      [(''http://localhost:3000/mcp/tools/call'',
        callTool_request 1700000000000 ''add_reminder''
          (Some (JObj [(''time'', JStr ''10:00 AM''), (''task'', JStr ''call the doctor'')])))])"
proof -
  have d: "discoverTools (local_fetch demo_runtime new_MCPServerProtocol) demo_client [] =
     (Inl (Error ''MCP not initialized. Call initialize() first.''), [])"
    by (rule discoverTools_guard) (simp add: demo_client_capabilities)
  have h: "handle_tools_call demo_runtime
      (callTool_request 1700000000000 ''add_reminder''
         (Some (JObj [(''time'', JStr ''10:00 AM''), (''task'', JStr ''call the doctor'')])))
      new_MCPServerProtocol =
     Some \<lparr>status = 200,
           body = \<lparr>resp_jsonrpc = ''2.0'', resp_id = Some (JNum 1700000000000),
                   result = Some (JObj [(''content'',
                     JArr [JObj [(''type'', JStr ''text''),
                                 (''text'', JStr ''{\"status\":\"ok\"}'')]])]),
                   error = None\<rparr>\<rparr>"
    by (simp add: handle_tools_call_def callTool_request_def route_tool_def demo_runtime_def
        field_def)
  have c: "callTool (local_fetch demo_runtime new_MCPServerProtocol) 1700000000000 demo_client
       ''add_reminder''
       (Some (JObj [(''time'', JStr ''10:00 AM''), (''task'', JStr ''call the doctor'')])) [] =
     (Inr (Some (JObj [(''content'',
         JArr [JObj [(''type'', JStr ''text''), (''text'', JStr ''{\"status\":\"ok\"}'')]])])),
      [(''http://localhost:3000/mcp/tools/call'',
        callTool_request 1700000000000 ''add_reminder''
          (Some (JObj [(''time'', JStr ''10:00 AM''), (''task'', JStr ''call the doctor'')])))])"
    by (simp add: callTool_def sendMCPRequest_def Let_def local_fetch_def demo_client_url h
        http_of_reply_def ok_def response_json_def field_def)
  from demo_client_capabilities d c show ?thesis by simp
qed

text \<open>
  C4, as the code has it. Every failing run of \<^verbatim>\<open>initialize\<close> throws
  \<^verbatim>\<open>Error("Failed to establish MCP connection")\<close>, a fixed message whatever the cause. When
  the failure is that of the request (\<^verbatim>\<open>fetch\<close> rejects, the status is not a success status,
  the body is not JSON, or the envelope carries an error), the client object is exactly as
  before the call, and one request has been issued.
\<close>

theorem initialize_failure:
  "(\<forall>e. fst (initialize fetch c log) = Inl e \<longrightarrow> e = Error ''Failed to establish MCP connection'') \<and>
   (\<forall>e. fetch (serverUrl c @ ''/mcp/initialize'') (request_headers c) initialize_request = Inl e \<longrightarrow>
      initialize fetch c log =
        (Inl (Error ''Failed to establish MCP connection''), c,
         log @ [(serverUrl c @ ''/mcp/initialize'', initialize_request)])) \<and>
   (\<forall>response.
      fetch (serverUrl c @ ''/mcp/initialize'') (request_headers c) initialize_request = Inr response \<and>
      (\<not> ok response \<or> (\<exists>e. json_body response = Inl e) \<or>
       (\<exists>envelope. json_body response = Inr envelope \<and> truthy (property envelope ''error''))) \<longrightarrow>
      initialize fetch c log =
        (Inl (Error ''Failed to establish MCP connection''), c,
         log @ [(serverUrl c @ ''/mcp/initialize'', initialize_request)]))"
proof (intro conjI allI impI)
  fix e assume "fst (initialize fetch c log) = Inl e"
  then show "e = Error ''Failed to establish MCP connection''" by (rule initialize_error_fixed)
next
  fix e
  assume "fetch (serverUrl c @ ''/mcp/initialize'') (request_headers c) initialize_request = Inl e"
  from sendMCPRequest_rejected
      [where fetch = fetch and c = c and endpoint = "''/mcp/initialize''"
        and request = initialize_request and log = log, OF this]
  show "initialize fetch c log =
        (Inl (Error ''Failed to establish MCP connection''), c,
         log @ [(serverUrl c @ ''/mcp/initialize'', initialize_request)])"
    by (rule initialize_request_failed)
next
  fix response
  assume a: "fetch (serverUrl c @ ''/mcp/initialize'') (request_headers c) initialize_request =
      Inr response \<and>
      (\<not> ok response \<or> (\<exists>e. json_body response = Inl e) \<or>
       (\<exists>envelope. json_body response = Inr envelope \<and> truthy (property envelope ''error'')))"
  then have f: "fetch (serverUrl c @ ''/mcp/initialize'') (request_headers c) initialize_request =
      Inr response" by simp
  have "\<exists>cause. fst (sendMCPRequest fetch c ''/mcp/initialize'' initialize_request log) = Inl cause"
  proof (cases "ok response")
    case False
    from sendMCPRequest_not_ok
      [where fetch = fetch and c = c and endpoint = "''/mcp/initialize''"
        and request = initialize_request and log = log, OF f False] show ?thesis by blast
  next
    case True
    show ?thesis
    proof (cases "json_body response")
      case (Inl e)
      from sendMCPRequest_unparsable
      [where fetch = fetch and c = c and endpoint = "''/mcp/initialize''"
        and request = initialize_request and log = log, OF f True Inl] show ?thesis by blast
    next
      case (Inr envelope)
      with a True have t: "truthy (property envelope ''error'')" by auto
      then obtain err where e: "property envelope ''error'' = Some err"
        by (cases "property envelope ''error''") auto
      with t have "truthy (Some err)" by simp
      from sendMCPRequest_error_envelope
      [where fetch = fetch and c = c and endpoint = "''/mcp/initialize''"
        and request = initialize_request and log = log, OF f True Inr e this] show ?thesis by blast
    qed
  qed
  then obtain cause where
    "fst (sendMCPRequest fetch c ''/mcp/initialize'' initialize_request log) = Inl cause" ..
  then show "initialize fetch c log =
        (Inl (Error ''Failed to establish MCP connection''), c,
         log @ [(serverUrl c @ ''/mcp/initialize'', initialize_request)])"
    by (rule initialize_request_failed)
qed

text \<open>A transport failure and an error envelope, on a freshly constructed client.\<close>

theorem initialize_failure_witness:
  "initialize (stub_fetch (Inl TypeError)) demo_client [] =
     (Inl (Error ''Failed to establish MCP connection''), demo_client,
      [(''http://localhost:3000/mcp/initialize'', initialize_request)]) \<and>
   initialize (stub_fetch (Inr boom_response)) demo_client [] =
     (Inl (Error ''Failed to establish MCP connection''), demo_client,
      [(''http://localhost:3000/mcp/initialize'', initialize_request)])"
proof -
  have a: "stub_fetch (Inl TypeError) (serverUrl demo_client @ ''/mcp/initialize'')
             (request_headers demo_client) initialize_request = Inl TypeError"
    by (simp add: stub_fetch_def)
  have b: "stub_fetch (Inr boom_response) (serverUrl demo_client @ ''/mcp/initialize'')
             (request_headers demo_client) initialize_request = Inr boom_response \<and>
           (\<not> ok boom_response \<or> (\<exists>e. json_body boom_response = Inl e) \<or>
            (\<exists>envelope. json_body boom_response = Inr envelope \<and>
               truthy (property envelope ''error'')))"
    by (simp add: stub_fetch_def boom_response_def)
  from initialize_failure [of "stub_fetch (Inl TypeError)" demo_client "[]"] a
  have 1: "initialize (stub_fetch (Inl TypeError)) demo_client [] =
     (Inl (Error ''Failed to establish MCP connection''), demo_client,
      [] @ [(serverUrl demo_client @ ''/mcp/initialize'', initialize_request)])"
    by blast
  from initialize_failure [of "stub_fetch (Inr boom_response)" demo_client "[]"] b
  have 2: "initialize (stub_fetch (Inr boom_response)) demo_client [] =
     (Inl (Error ''Failed to establish MCP connection''), demo_client,
      [] @ [(serverUrl demo_client @ ''/mcp/initialize'', initialize_request)])"
    by blast
  from 1 2 show ?thesis by (simp add: demo_client_url)
qed

text \<open>
  C4 as stated fails. A rejected \<^verbatim>\<open>fetch\<close> and an error envelope with message \<^verbatim>\<open>boom\<close> are two
  different causes, and \<^verbatim>\<open>initialize\<close> throws the same error for both: nothing of the cause
  is in it. And a reply whose result has no \<^verbatim>\<open>tools\<close> makes \<^verbatim>\<open>initialize\<close> fail after the
  assignment, leaving \<^verbatim>\<open>capabilities\<close> set to that result instead of \<^verbatim>\<open>null\<close>.
\<close>

theorem initialize_failure_counterexample:
  "fst (sendMCPRequest (stub_fetch (Inl TypeError)) demo_client ''/mcp/initialize''
          initialize_request []) = Inl TypeError \<and>
   fst (sendMCPRequest (stub_fetch (Inr boom_response)) demo_client ''/mcp/initialize''
          initialize_request []) = Inl (Error ''MCP Error -32603: boom'') \<and>
   fst (initialize (stub_fetch (Inl TypeError)) demo_client []) =
     Inl (Error ''Failed to establish MCP connection'') \<and>
   fst (initialize (stub_fetch (Inr boom_response)) demo_client []) =
     Inl (Error ''Failed to establish MCP connection'') \<and>
   capabilities demo_client = Some JNull \<and>
   fst (initialize (stub_fetch (Inr empty_result_response)) demo_client []) =
     Inl (Error ''Failed to establish MCP connection'') \<and>
   capabilities (fst (snd (initialize (stub_fetch (Inr empty_result_response)) demo_client []))) =
     Some (JObj [])"
proof -
  have 1: "fst (sendMCPRequest (stub_fetch (Inl TypeError)) demo_client ''/mcp/initialize''
          initialize_request []) = Inl TypeError"
    by (rule sendMCPRequest_rejected) (simp add: stub_fetch_def)
  note 2 = boom_cause
  have 3: "fst (initialize (stub_fetch (Inl TypeError)) demo_client []) =
     Inl (Error ''Failed to establish MCP connection'')"
    using initialize_request_failed [OF 1] by simp
  have 4: "fst (initialize (stub_fetch (Inr boom_response)) demo_client []) =
     Inl (Error ''Failed to establish MCP connection'')"
    using initialize_request_failed [OF 2] by simp
  have s: "sendMCPRequest (stub_fetch (Inr empty_result_response)) demo_client ''/mcp/initialize''
      initialize_request [] =
     (Inr (JObj [(''jsonrpc'', JStr ''2.0''), (''id'', JNum 1), (''result'', JObj [])]),
      [(serverUrl demo_client @ ''/mcp/initialize'', initialize_request)])"
    by (simp add: sendMCPRequest_def Let_def stub_fetch_def empty_result_response_def ok_def)
  have 5: "initialize (stub_fetch (Inr empty_result_response)) demo_client [] =
     (Inl (Error ''Failed to establish MCP connection''),
      demo_client\<lparr>capabilities := Some (JObj [])\<rparr>,
      [(serverUrl demo_client @ ''/mcp/initialize'', initialize_request)])"
    by (simp add: initialize_def s tools_listable_def)
  from 1 2 3 4 5 demo_client_capabilities show ?thesis by simp
qed

text \<open>
  C5, as the code has it. The correlation id of the request that \<^verbatim>\<open>callTool\<close> builds is the
  clock reading \<^verbatim>\<open>Date.now()\<close> of that moment, and this request is the one it sends. The ids
  of two invocations are equal exactly when their clock readings are equal.
\<close>

theorem callTool_request_id:
  "req_id (callTool_request now toolName parameters) = Some (JNum now) \<and>
   ((req_id (callTool_request now1 toolName1 parameters1) =
     req_id (callTool_request now2 toolName2 parameters2)) = (now1 = now2)) \<and>
   snd (callTool fetch now c toolName parameters log) =
     log @ [(serverUrl c @ ''/mcp/tools/call'', callTool_request now toolName parameters)]"
  by (simp add: callTool_log) (simp add: callTool_request_def)

text \<open>
  C5 as stated fails: two invocations of \<^verbatim>\<open>callTool\<close> on one client within the same
  millisecond send two different requests with the same id.
\<close>

theorem callTool_request_id_counterexample:
  "snd (callTool (local_fetch demo_runtime new_MCPServerProtocol) 1700000000000 demo_client
          ''list_reminders'' (Some (JObj []))
          (snd (callTool (local_fetch demo_runtime new_MCPServerProtocol) 1700000000000
                  demo_client ''add_reminder'' (Some (JObj [])) []))) =
     [(''http://localhost:3000/mcp/tools/call'',
       callTool_request 1700000000000 ''add_reminder'' (Some (JObj []))),
      (''http://localhost:3000/mcp/tools/call'',
       callTool_request 1700000000000 ''list_reminders'' (Some (JObj [])))] \<and>
   callTool_request 1700000000000 ''add_reminder'' (Some (JObj [])) \<noteq>
     callTool_request 1700000000000 ''list_reminders'' (Some (JObj [])) \<and>
   req_id (callTool_request 1700000000000 ''add_reminder'' (Some (JObj []))) =
     Some (JNum 1700000000000) \<and>
   req_id (callTool_request 1700000000000 ''list_reminders'' (Some (JObj []))) =
     Some (JNum 1700000000000)"
  by (simp add: callTool_log demo_client_url) (simp add: callTool_request_def)

end
